theory Spec2Isabelle
  imports Complex_Main "HOL-Library.Word"
begin

section \<open>Numbers\<close>

text \<open>
  The design document types every quantity as a 32-bit float (\<open>f32\<close>, \<open>float\<close>).
  The model keeps the special values of IEEE 754 arithmetic, because the resolver
  divides by masses that may be zero: a value is a finite number, an infinity or
  not-a-number. Finite results are computed exactly over the reals (rounding and
  overflow are left out), and zero carries no sign, so a nonzero finite number
  divided by zero is the infinity with the sign of the numerator. A statement that
  gives the exact value of a finite result is therefore a statement about the
  unrounded value; the statements on branches, on infinities and not-a-number, and
  on a value being zero or not do not rest on it.
\<close>

datatype f32 = Fin real | PInf | NInf | NaN

text \<open>The infinity whose sign is that of \<open>s\<close>; the invalid case \<open>s = 0\<close> is NaN.\<close>

definition signed_inf :: "real \<Rightarrow> f32" where
  "signed_inf s = (if 0 < s then PInf else if s < 0 then NInf else NaN)"

instantiation f32 :: "{zero, one, plus, uminus, minus, times, inverse, ord}"
begin

definition zero_f32 :: f32 where
  "zero_f32 = Fin 0"

definition one_f32 :: f32 where
  "one_f32 = Fin 1"

fun plus_f32 :: "f32 \<Rightarrow> f32 \<Rightarrow> f32" where
  "plus_f32 NaN _ = NaN"
| "plus_f32 _ NaN = NaN"
| "plus_f32 (Fin a) (Fin b) = Fin (a + b)"
| "plus_f32 (Fin a) PInf = PInf"
| "plus_f32 (Fin a) NInf = NInf"
| "plus_f32 PInf (Fin b) = PInf"
| "plus_f32 NInf (Fin b) = NInf"
| "plus_f32 PInf PInf = PInf"
| "plus_f32 NInf NInf = NInf"
| "plus_f32 PInf NInf = NaN"
| "plus_f32 NInf PInf = NaN"

fun uminus_f32 :: "f32 \<Rightarrow> f32" where
  "uminus_f32 (Fin a) = Fin (- a)"
| "uminus_f32 PInf = NInf"
| "uminus_f32 NInf = PInf"
| "uminus_f32 NaN = NaN"

definition minus_f32 :: "f32 \<Rightarrow> f32 \<Rightarrow> f32" where
  "minus_f32 a b = a + (- b)"

fun times_f32 :: "f32 \<Rightarrow> f32 \<Rightarrow> f32" where
  "times_f32 NaN _ = NaN"
| "times_f32 _ NaN = NaN"
| "times_f32 (Fin a) (Fin b) = Fin (a * b)"
| "times_f32 (Fin a) PInf = signed_inf a"
| "times_f32 (Fin a) NInf = signed_inf (- a)"
| "times_f32 PInf (Fin b) = signed_inf b"
| "times_f32 NInf (Fin b) = signed_inf (- b)"
| "times_f32 PInf PInf = PInf"
| "times_f32 NInf NInf = PInf"
| "times_f32 PInf NInf = NInf"
| "times_f32 NInf PInf = NInf"

fun divide_f32 :: "f32 \<Rightarrow> f32 \<Rightarrow> f32" where
  "divide_f32 NaN _ = NaN"
| "divide_f32 _ NaN = NaN"
| "divide_f32 (Fin a) (Fin b) = (if b = 0 then signed_inf a else Fin (a / b))"
| "divide_f32 (Fin a) PInf = Fin 0"
| "divide_f32 (Fin a) NInf = Fin 0"
| "divide_f32 PInf (Fin b) = (if 0 \<le> b then PInf else NInf)"
| "divide_f32 NInf (Fin b) = (if 0 \<le> b then NInf else PInf)"
| "divide_f32 PInf PInf = NaN"
| "divide_f32 NInf NInf = NaN"
| "divide_f32 PInf NInf = NaN"
| "divide_f32 NInf PInf = NaN"

definition inverse_f32 :: "f32 \<Rightarrow> f32" where
  "inverse_f32 a = divide (Fin 1) a"

fun less_f32 :: "f32 \<Rightarrow> f32 \<Rightarrow> bool" where
  "less_f32 (Fin a) (Fin b) = (a < b)"
| "less_f32 (Fin a) PInf = True"
| "less_f32 NInf (Fin b) = True"
| "less_f32 NInf PInf = True"
| "less_f32 _ _ = False"

definition less_eq_f32 :: "f32 \<Rightarrow> f32 \<Rightarrow> bool" where
  "less_eq_f32 a b = (a < b \<or> (a = b \<and> a \<noteq> NaN))"

instance ..

end

text \<open>
  \<open>min\<close> of two floats, as Rust's \<open>f32::min\<close>: when one argument is NaN the other
  is returned.
\<close>

definition fmin :: "f32 \<Rightarrow> f32 \<Rightarrow> f32" where
  "fmin a b = (if a = NaN then b else if b = NaN then a else if a < b then a else b)"

section \<open>Vectors and boxes\<close>

text \<open>
  \<open>Vec2\<close> has the components \<open>x\<close> and \<open>y\<close> (here \<open>vx\<close>, \<open>vy\<close>). The resolver uses
  vector subtraction and addition, the product of a scalar and a vector, and
  \<open>rv * normal\<close> for the dot product \<open>x1 * x2 + y1 * y2\<close> (formula three of the
  document prints the second summand as \<open>y2 * y2\<close>; the product of the two second
  components is meant).
\<close>

record Vec2 =
  vx :: f32
  vy :: f32

definition vadd :: "Vec2 \<Rightarrow> Vec2 \<Rightarrow> Vec2" where
  "vadd u v = \<lparr>vx = vx u + vx v, vy = vy u + vy v\<rparr>"

definition vsub :: "Vec2 \<Rightarrow> Vec2 \<Rightarrow> Vec2" where
  "vsub u v = \<lparr>vx = vx u - vx v, vy = vy u - vy v\<rparr>"

definition scale :: "f32 \<Rightarrow> Vec2 \<Rightarrow> Vec2" where
  "scale k v = \<lparr>vx = k * vx v, vy = k * vy v\<rparr>"

definition dot :: "Vec2 \<Rightarrow> Vec2 \<Rightarrow> f32" where
  "dot u v = vx u * vx v + vy u * vy v"

text \<open>\<open>struct AABB { Vec2 min; Vec2 max; }\<close>\<close>

record AABB =
  min_v :: Vec2
  max_v :: Vec2

text \<open>
  \<open>AABBvsAABB\<close>: two early exits with \<open>false\<close>, then \<open>true\<close>. The second test of the
  document reads \<open>a.max < b.min.y\<close>; a vector cannot be compared with a number, and
  the three comparisons around it fix the missing component as \<open>a.max.y\<close>.
\<close>

definition AABBvsAABB :: "AABB \<Rightarrow> AABB \<Rightarrow> bool" where
  "AABBvsAABB a b =
     (if vx (max_v a) < vx (min_v b) \<or> vx (min_v a) > vx (max_v b) then False
      else if vy (max_v a) < vy (min_v b) \<or> vy (min_v a) > vy (max_v b) then False
      else True)"

section \<open>Bodies and the impulse resolver\<close>

text \<open>
  \<open>resolveCollision\<close> takes two \<open>Object\<close>s and reads their \<open>velocity\<close>,
  \<open>restitution\<close> and \<open>mass\<close>; the document does not declare \<open>Object\<close>. The record
  has these three fields and the transform \<open>tx\<close> (position and rotation) that the
  document's \<open>Body\<close> carries, so that what the resolver does to a position can be
  stated.
\<close>

record Transform =
  position :: Vec2
  rotation :: f32

record Object =
  tx :: Transform
  velocity :: Vec2
  restitution :: f32
  mass :: f32

text \<open>
  The resolver runs on a detected collision, for which the document names two data:
  the collision normal and the penetration. The body of \<open>resolveCollision\<close> refers
  to \<open>normal\<close> as a free name and never to the penetration.
\<close>

record Collision =
  normal :: Vec2
  penetration :: f32

text \<open>
  \<open>resolveCollision\<close>, statement by statement. The two objects are mutated in place;
  the model returns them as a pair. The early \<open>return\<close> leaves both as they were.
\<close>

definition resolveCollision :: "Collision \<Rightarrow> Object \<Rightarrow> Object \<Rightarrow> Object \<times> Object" where
  "resolveCollision c a b =
     (let rv = vsub (velocity b) (velocity a);
          vel_along_normal = dot rv (normal c)
      in if vel_along_normal > 0 then (a, b)
         else
           let e = fmin (restitution a) (restitution b);
               j = - (1 + e) * vel_along_normal;
               j = j / (1 / mass a + 1 / mass b);
               impulse = scale j (normal c)
           in (a\<lparr>velocity := vsub (velocity a) (scale (1 / mass a) impulse)\<rparr>,
               b\<lparr>velocity := vadd (velocity b) (scale (1 / mass b) impulse)\<rparr>))"

text \<open>The intermediate values of \<open>resolveCollision\<close>, named so that they can be stated.\<close>

definition vel_along_normal :: "Collision \<Rightarrow> Object \<Rightarrow> Object \<Rightarrow> f32" where
  "vel_along_normal c a b = dot (vsub (velocity b) (velocity a)) (normal c)"

text \<open>The denominator of \<open>j /= 1 / a.mass + 1 / b.mass\<close>.\<close>

definition denominator :: "Object \<Rightarrow> Object \<Rightarrow> f32" where
  "denominator a b = 1 / mass a + 1 / mass b"

text \<open>The value of \<open>j\<close> after \<open>j /= 1 / a.mass + 1 / b.mass\<close>.\<close>

definition impulse_scalar :: "Collision \<Rightarrow> Object \<Rightarrow> Object \<Rightarrow> f32" where
  "impulse_scalar c a b =
     (- (1 + fmin (restitution a) (restitution b)) * vel_along_normal c a b) / denominator a b"

text \<open>
  Modelled from the spec: the document declares \<open>MassData\<close> with the fields \<open>mass\<close> and
  \<open>inv_mass\<close> but holds no code that fills them. The specification fixes
  \<open>mass == 0 \<Rightarrow> inv_mass == 0\<close> (a static body) and \<open>inv_mass == 1/mass\<close> otherwise.
\<close>

definition inv_mass :: "Object \<Rightarrow> f32" where
  "inv_mass a = (if mass a = 0 then 0 else 1 / mass a)"

text \<open>
  The impulse scalar in the specification's words:
  \<open>j = -(1+e) * velAlongNormal / (a.inv_mass + b.inv_mass)\<close> with
  \<open>e = min(a.material.restitution, b.material.restitution)\<close>.
\<close>

definition spec_impulse_scalar :: "Collision \<Rightarrow> Object \<Rightarrow> Object \<Rightarrow> f32" where
  "spec_impulse_scalar c a b =
     (- (1 + fmin (restitution a) (restitution b)) * vel_along_normal c a b) /
       (inv_mass a + inv_mass b)"

text \<open>
  The values of the data model: every number is finite, and a dynamic body has a
  positive mass (a density is never negative, and density zero marks a static body).
\<close>

definition finite_f :: "f32 \<Rightarrow> bool" where
  "finite_f v = (case v of Fin r \<Rightarrow> True | _ \<Rightarrow> False)"

definition finite_vec :: "Vec2 \<Rightarrow> bool" where
  "finite_vec v = (finite_f (vx v) \<and> finite_f (vy v))"

definition dynamic :: "Object \<Rightarrow> bool" where
  "dynamic a = (finite_f (mass a) \<and> 0 < mass a)"

section \<open>Broad phase\<close>

text \<open>
  Modelled from the spec: the broad phase \<open>findPairs\<close> is not in the repository's
  sources; the document only declares \<open>struct Pair { a: &Body, b: &Body }\<close> and asks
  for a pairwise test of the bodies' boxes without duplicates. The specification
  scans all index pairs \<open>(i, j)\<close> with \<open>i < j\<close>, emits no pair whose layer masks share
  no bit, and tests the bounding boxes with the slab test. A body is reduced to what
  the scan reads: its bounding box and its layer mask (a fixed-width unsigned
  integer). A pair refers to its two bodies by their indices in the sequence.
\<close>

record Body =
  bounds :: AABB
  layers :: "32 word"

type_synonym Pair = "nat \<times> nat"

definition may_collide :: "Body \<Rightarrow> Body \<Rightarrow> bool" where
  "may_collide p q = (and (layers p) (layers q) \<noteq> 0 \<and> AABBvsAABB (bounds p) (bounds q))"

definition findPairs :: "Body list \<Rightarrow> Pair list" where
  "findPairs bodies =
     concat (map (\<lambda>i. map (\<lambda>j. (i, j))
                   (filter (\<lambda>j. may_collide (bodies ! i) (bodies ! j))
                      [Suc i ..< length bodies]))
             [0 ..< length bodies])"

section \<open>Concrete bodies\<close>

text \<open>Finite vectors, bodies at rotation zero, boxes and contacts, for concrete inputs.\<close>

definition vec :: "real \<Rightarrow> real \<Rightarrow> Vec2" where
  "vec p q = \<lparr>vx = Fin p, vy = Fin q\<rparr>"

definition object_at :: "Vec2 \<Rightarrow> Vec2 \<Rightarrow> real \<Rightarrow> real \<Rightarrow> Object" where
  "object_at p v e m =
     \<lparr>tx = \<lparr>position = p, rotation = Fin 0\<rparr>, velocity = v, restitution = Fin e, mass = Fin m\<rparr>"

definition contact :: "Vec2 \<Rightarrow> real \<Rightarrow> Collision" where
  "contact n d = \<lparr>normal = n, penetration = Fin d\<rparr>"

definition box :: "Vec2 \<Rightarrow> Vec2 \<Rightarrow> AABB" where
  "box lo hi = \<lparr>min_v = lo, max_v = hi\<rparr>"

text \<open>
  The scenario of the specification: two circles of radius 30 and density 1 (mass
  \<open>density * volume = 900 * pi\<close> each), 50 apart on the x-axis, approaching at speed 5
  each, restitution 0.8. The normal points from the first to the second, and the
  circles overlap by \<open>30 + 30 - 50 = 10\<close>.
\<close>

definition circle_a :: Object where
  "circle_a = object_at (vec 0 0) (vec 5 0) (4 / 5) (900 * pi)"

definition circle_b :: Object where
  "circle_b = object_at (vec 50 0) (vec (- 5) 0) (4 / 5) (900 * pi)"

definition head_on :: Collision where
  "head_on = contact (vec 1 0) 10"

text \<open>
  A static ground under a ball of mass 1. The material table of the document lists
  \<open>Static\<close> with density 0.0 and restitution 0.4, and mass is \<open>density * volume\<close>,
  so the ground has mass zero. The ball falls onto the ground, or rests on it; the
  wall is a second static body in contact with the ground.
\<close>

definition ground :: Object where
  "ground = object_at (vec 0 0) (vec 0 0) (2 / 5) 0"

definition falling_ball :: Object where
  "falling_ball = object_at (vec 0 25) (vec 0 (- 1)) (4 / 5) 1"

definition resting_ball :: Object where
  "resting_ball = object_at (vec 0 30) (vec 0 0) (4 / 5) 1"

definition wall :: Object where
  "wall = object_at (vec 0 5) (vec 0 0) (2 / 5) 0"

definition from_ground :: Collision where
  "from_ground = contact (vec 0 1) 5"

text \<open>
  Three bodies for the broad phase: the boxes of all three overlap, and the layer
  masks of the first and the third share no bit.
\<close>

definition three_bodies :: "Body list" where
  "three_bodies =
     [\<lparr>bounds = box (vec 0 0) (vec 2 2), layers = 1\<rparr>,
      \<lparr>bounds = box (vec 1 1) (vec 3 3), layers = 3\<rparr>,
      \<lparr>bounds = box (vec 1 1) (vec 3 3), layers = 2\<rparr>]"

section \<open>The overlap test\<close>

text \<open>
  C2. \<open>AABBvsAABB a b\<close> is false exactly when one of the four comparisons
  \<open>a.max.x < b.min.x\<close>, \<open>a.min.x > b.max.x\<close>, \<open>a.max.y < b.min.y\<close>,
  \<open>a.min.y > b.max.y\<close> holds, and true otherwise.
\<close>

theorem AABBvsAABB_slab:
  "AABBvsAABB a b =
     (\<not> (vx (max_v a) < vx (min_v b) \<or> vx (min_v a) > vx (max_v b) \<or>
         vy (max_v a) < vy (min_v b) \<or> vy (min_v a) > vy (max_v b)))"
  by (simp add: AABBvsAABB_def)

theorem AABBvsAABB_slab_witness:
  "AABBvsAABB (box (vec 0 0) (vec 2 2)) (box (vec 1 1) (vec 3 3)) \<and>
   AABBvsAABB (box (vec 0 0) (vec 2 2)) (box (vec 3 1) (vec 4 3)) = False"
  using AABBvsAABB_slab [of "box (vec 0 0) (vec 2 2)" "box (vec 1 1) (vec 3 3)"]
    AABBvsAABB_slab [of "box (vec 0 0) (vec 2 2)" "box (vec 3 1) (vec 4 3)"]
  by (simp add: box_def vec_def)

text \<open>
  C6. The overlap test is symmetric: \<open>AABBvsAABB A B = AABBvsAABB B A\<close> for all
  boxes, also when a bound is an infinity or not a number.
\<close>

theorem AABBvsAABB_symmetric: "AABBvsAABB A B = AABBvsAABB B A"
  by (auto simp add: AABBvsAABB_def)

theorem AABBvsAABB_symmetric_witness:
  "AABBvsAABB (box (vec 0 0) (vec 2 2)) (box (vec 3 1) (vec 4 3)) =
     AABBvsAABB (box (vec 3 1) (vec 4 3)) (box (vec 0 0) (vec 2 2)) \<and>
   AABBvsAABB (box (vec 3 1) (vec 4 3)) (box (vec 0 0) (vec 2 2)) = False"
  using AABBvsAABB_symmetric [of "box (vec 0 0) (vec 2 2)" "box (vec 3 1) (vec 4 3)"]
  by (simp add: AABBvsAABB_def box_def vec_def)

section \<open>The resolver\<close>

lemma resolveCollision_separating:
  "0 < vel_along_normal c a b \<Longrightarrow> resolveCollision c a b = (a, b)"
  by (simp add: resolveCollision_def vel_along_normal_def Let_def)

lemma resolveCollision_impulse:
  "\<not> 0 < vel_along_normal c a b \<Longrightarrow>
   resolveCollision c a b =
     (a\<lparr>velocity := vsub (velocity a)
           (scale (1 / mass a) (scale (impulse_scalar c a b) (normal c)))\<rparr>,
      b\<lparr>velocity := vadd (velocity b)
           (scale (1 / mass b) (scale (impulse_scalar c a b) (normal c)))\<rparr>)"
  by (simp add: resolveCollision_def vel_along_normal_def impulse_scalar_def
        denominator_def Let_def)

lemma f32_le_not_gt: "(a::f32) \<le> b \<Longrightarrow> \<not> b < a"
  by (cases a; cases b; auto simp add: less_eq_f32_def)

lemma fmin_Fin: "fmin (Fin p) (Fin q) = Fin (min p q)"
  by (simp add: fmin_def min_def)

lemma f32_add_zero: "(v::f32) + Fin 0 = v"
  by (cases v) simp_all

lemma f32_sub_zero: "(v::f32) - Fin 0 = v"
  by (cases v) (simp_all add: minus_f32_def)

lemma finite_f_Fin: "finite_f v \<Longrightarrow> \<exists>r. v = Fin r"
  by (cases v) (simp_all add: finite_f_def)

lemma finite_vec_vec: "finite_vec v \<Longrightarrow> \<exists>p q. v = vec p q"
proof -
  assume "finite_vec v"
  then obtain p q where "vx v = Fin p" "vy v = Fin q"
    unfolding finite_vec_def using finite_f_Fin by blast
  then have "v = vec p q" by (simp add: vec_def)
  then show ?thesis by blast
qed

lemma dynamic_mass: "dynamic a \<Longrightarrow> \<exists>m. mass a = Fin m \<and> 0 < m"
  by (cases "mass a") (simp_all add: dynamic_def finite_f_def zero_f32_def)

lemma denominator_dynamic:
  assumes "mass a = Fin ma" "0 < ma" "mass b = Fin mb" "0 < mb"
  shows "denominator a b = Fin (1 / ma + 1 / mb)" "0 < 1 / ma + 1 / mb"
  using assms by (simp_all add: denominator_def one_f32_def add_pos_pos)

text \<open>
  C3. When \<open>(b.velocity - a.velocity) . normal > 0\<close> the bodies are separating and
  \<open>resolveCollision\<close> returns at once: both velocities, and the two bodies as a
  whole, are exactly what they were.
\<close>

theorem separating_contact_skip:
  assumes "0 < dot (vsub (velocity b) (velocity a)) (normal c)"
  shows "velocity (fst (resolveCollision c a b)) = velocity a \<and>
         velocity (snd (resolveCollision c a b)) = velocity b \<and>
         resolveCollision c a b = (a, b)"
  using assms by (simp add: resolveCollision_separating vel_along_normal_def)

theorem separating_contact_skip_witness:
  "0 < dot (vsub (velocity circle_a) (velocity circle_b)) (normal head_on) \<and>
   velocity (fst (resolveCollision head_on circle_b circle_a)) = vec (- 5) 0 \<and>
   velocity (snd (resolveCollision head_on circle_b circle_a)) = vec 5 0"
proof -
  have sep: "0 < dot (vsub (velocity circle_a) (velocity circle_b)) (normal head_on)"
    by (simp add: circle_a_def circle_b_def head_on_def object_at_def contact_def vec_def
          dot_def vsub_def zero_f32_def minus_f32_def)
  from separating_contact_skip [OF sep] sep show ?thesis
    by (simp add: circle_a_def circle_b_def object_at_def)
qed

text \<open>
  C8 (as the code has it). \<open>resolveCollision\<close> assigns to the two velocities and to
  nothing else: the transform (position and rotation), the restitution and the mass
  of both bodies are what they were, and the result does not depend on the
  penetration. The document has no positional-correction pass.
\<close>

theorem resolveCollision_transform_unchanged:
  "tx (fst (resolveCollision c a b)) = tx a \<and>
   tx (snd (resolveCollision c a b)) = tx b \<and>
   restitution (fst (resolveCollision c a b)) = restitution a \<and>
   restitution (snd (resolveCollision c a b)) = restitution b \<and>
   mass (fst (resolveCollision c a b)) = mass a \<and>
   mass (snd (resolveCollision c a b)) = mass b \<and>
   resolveCollision (c\<lparr>penetration := d\<rparr>) a b = resolveCollision c a b"
  by (simp add: resolveCollision_def Let_def)

theorem resolveCollision_transform_unchanged_witness:
  "tx (fst (resolveCollision head_on circle_a circle_b)) = tx circle_a \<and>
   tx (snd (resolveCollision head_on circle_a circle_b)) = tx circle_b \<and>
   resolveCollision (head_on\<lparr>penetration := Fin 20\<rparr>) circle_a circle_b =
     resolveCollision head_on circle_a circle_b"
  using resolveCollision_transform_unchanged [of head_on circle_a circle_b "Fin 20"]
  by simp

text \<open>
  The claim C8 at the two circles of the scenario: they overlap by 10 and both have
  a positive inverse mass, so a positional correction would move both apart along
  the normal. After \<open>resolveCollision\<close> the two positions are the ones before the
  call, while the velocities have changed.
\<close>

theorem positional_correction_counterexample:
  "0 < penetration head_on \<and> 0 < inv_mass circle_a \<and> 0 < inv_mass circle_b \<and>
   position (tx circle_a) = vec 0 0 \<and>
   position (tx (fst (resolveCollision head_on circle_a circle_b))) = vec 0 0 \<and>
   position (tx circle_b) = vec 50 0 \<and>
   position (tx (snd (resolveCollision head_on circle_a circle_b))) = vec 50 0 \<and>
   velocity (fst (resolveCollision head_on circle_a circle_b)) = vec (- 4) 0 \<and>
   velocity (snd (resolveCollision head_on circle_a circle_b)) = vec 4 0"
  by (simp add: resolveCollision_def Let_def circle_a_def circle_b_def head_on_def
        object_at_def contact_def vec_def dot_def vsub_def vadd_def scale_def fmin_def
        inv_mass_def zero_f32_def one_f32_def minus_f32_def)

section \<open>The impulse scalar\<close>

text \<open>
  For two bodies of nonzero mass the stored inverse mass is \<open>1 / mass\<close>, and the
  \<open>j\<close> of \<open>resolveCollision\<close> is the specification's
  \<open>-(1+e) * velAlongNormal / (a.inv_mass + b.inv_mass)\<close>; the two velocities are
  changed by \<open>inv_mass * j * normal\<close>.
\<close>

lemma impulse_scalar_nonzero_mass:
  assumes "vel_along_normal c a b \<le> 0" "mass a \<noteq> 0" "mass b \<noteq> 0"
  shows "impulse_scalar c a b = spec_impulse_scalar c a b \<and>
     resolveCollision c a b =
     (a\<lparr>velocity := vsub (velocity a)
           (scale (inv_mass a) (scale (spec_impulse_scalar c a b) (normal c)))\<rparr>,
      b\<lparr>velocity := vadd (velocity b)
           (scale (inv_mass b) (scale (spec_impulse_scalar c a b) (normal c)))\<rparr>)"
proof -
  have eq: "impulse_scalar c a b = spec_impulse_scalar c a b"
    using assms(2,3)
    by (simp add: impulse_scalar_def spec_impulse_scalar_def denominator_def inv_mass_def)
  from assms(1) have "\<not> 0 < vel_along_normal c a b" by (rule f32_le_not_gt)
  from resolveCollision_impulse [OF this] eq assms(2,3) show ?thesis
    by (simp add: inv_mass_def)
qed

text \<open>
  The scenario of the specification, in exact arithmetic: \<open>velAlongNormal = -10\<close>,
  \<open>e = 0.8\<close> and \<open>j = -(1.8)(-10) / (1/mass + 1/mass) = 8100 * pi\<close>; the circles
  leave with velocities \<open>-4\<close> and \<open>4\<close>, their relative velocity along the normal
  being \<open>8 = -e * (-10)\<close>. The 32-bit value of \<open>j\<close> is this one rounded.
\<close>

lemma head_on_scenario:
  "vel_along_normal head_on circle_a circle_b = Fin (- 10) \<and>
   impulse_scalar head_on circle_a circle_b
     = Fin (- (1 + 4 / 5) * (- 10) / (1 / (900 * pi) + 1 / (900 * pi))) \<and>
   impulse_scalar head_on circle_a circle_b = Fin (8100 * pi) \<and>
   spec_impulse_scalar head_on circle_a circle_b = Fin (8100 * pi) \<and>
   velocity (fst (resolveCollision head_on circle_a circle_b)) = vec (- 4) 0 \<and>
   velocity (snd (resolveCollision head_on circle_a circle_b)) = vec 4 0"
  by (simp add: resolveCollision_def Let_def impulse_scalar_def spec_impulse_scalar_def
        denominator_def inv_mass_def vel_along_normal_def circle_a_def circle_b_def
        head_on_def object_at_def contact_def vec_def dot_def vsub_def vadd_def scale_def
        fmin_def zero_f32_def one_f32_def minus_f32_def)

text \<open>
  C1, at a static body. The ground has mass zero and so inverse mass zero; the ball
  of mass 1 falls onto it with \<open>velAlongNormal = -1\<close> and \<open>e = min 0.4 0.8 = 0.4\<close>.
  The specification's impulse scalar is \<open>1.4 / (0 + 1) = 1.4\<close>. The code divides by
  \<open>1 / a.mass + 1 / b.mass\<close>, which is infinite, so its \<open>j\<close> is zero and the ball
  keeps its velocity.
\<close>

theorem impulse_scalar_static_ground:
  "vel_along_normal from_ground ground falling_ball \<le> 0 \<and>
   inv_mass ground = 0 \<and> inv_mass falling_ball = 1 \<and>
   spec_impulse_scalar from_ground ground falling_ball = Fin (7 / 5) \<and>
   denominator ground falling_ball = PInf \<and>
   impulse_scalar from_ground ground falling_ball = 0 \<and>
   velocity (snd (resolveCollision from_ground ground falling_ball)) = velocity falling_ball"
  by (simp add: resolveCollision_def Let_def impulse_scalar_def spec_impulse_scalar_def
        denominator_def inv_mass_def vel_along_normal_def ground_def falling_ball_def
        from_ground_def object_at_def contact_def vec_def dot_def vsub_def vadd_def scale_def
        fmin_def zero_f32_def one_f32_def minus_f32_def less_eq_f32_def signed_inf_def)

section \<open>Static bodies\<close>

text \<open>
  C4, at the static ground and the falling ball. \<open>1 / a.mass\<close> is infinite for the
  ground and the impulse is the zero vector, so \<open>a.velocity -= 1 / a.mass * impulse\<close>
  subtracts infinity times zero: the velocity of the ground, \<open>(0, 0)\<close> before the
  call, is not a number afterwards. Its transform is not touched.
\<close>

theorem static_body_velocity_not_preserved:
  "mass ground = 0 \<and> inv_mass ground = 0 \<and> dynamic falling_ball \<and>
   velocity ground = vec 0 0 \<and>
   velocity (fst (resolveCollision from_ground ground falling_ball)) = \<lparr>vx = NaN, vy = NaN\<rparr> \<and>
   tx (fst (resolveCollision from_ground ground falling_ball)) = tx ground"
  by (simp add: resolveCollision_def Let_def inv_mass_def dynamic_def finite_f_def
        ground_def falling_ball_def from_ground_def object_at_def contact_def vec_def
        dot_def vsub_def vadd_def scale_def fmin_def zero_f32_def one_f32_def minus_f32_def
        signed_inf_def)

section \<open>The denominator\<close>






text \<open>
  Two static bodies in contact, both at rest, and two dynamic ones. For the static
  pair the divisor of the code is \<open>+inf\<close>, not zero, while the two stored inverse
  masses add up to zero: the second part of the theorem needs its hypothesis. For
  the two circles both sums are the same positive number.
\<close>

lemma static_pair_divisor:
  "denominator ground wall = PInf \<and> denominator ground wall \<noteq> 0 \<and>
   inv_mass ground + inv_mass wall = 0 \<and>
   denominator circle_a circle_b = inv_mass circle_a + inv_mass circle_b \<and>
   denominator circle_a circle_b \<noteq> 0"
  by (simp add: denominator_def inv_mass_def ground_def wall_def circle_a_def circle_b_def
        object_at_def zero_f32_def one_f32_def signed_inf_def)

section \<open>Resting contact\<close>

text \<open>
  Between two bodies of finite positive mass a contact with \<open>velAlongNormal = 0\<close>
  passes the early exit, gets \<open>j = 0\<close> and the zero impulse, and both bodies are
  left as they were. This is so in exact arithmetic, where the reciprocal of a
  positive mass is finite; in 32 bits it needs masses whose reciprocal does not
  overflow.
\<close>

lemma resting_contact_dynamic:
  assumes "dynamic a" "dynamic b" "finite_f (restitution a)" "finite_f (restitution b)"
    "finite_vec (normal c)" "vel_along_normal c a b = 0"
  shows "resolveCollision c a b = (a, b)"
proof -
  from assms(1,2) obtain ma mb where m: "mass a = Fin ma" "0 < ma" "mass b = Fin mb" "0 < mb"
    using dynamic_mass by blast
  from assms(3,4) obtain ea eb where e: "restitution a = Fin ea" "restitution b = Fin eb"
    using finite_f_Fin by blast
  from assms(5) obtain nx ny where n: "normal c = vec nx ny"
    using finite_vec_vec by blast
  have d: "1 / ma + 1 / mb \<noteq> 0" using denominator_dynamic(2) [OF m] by simp
  have j: "impulse_scalar c a b = Fin 0"
    using m e d assms(6)
    by (simp add: impulse_scalar_def denominator_def fmin_Fin one_f32_def zero_f32_def)
  have "\<not> 0 < vel_along_normal c a b" using assms(6) by (simp add: zero_f32_def)
  from resolveCollision_impulse [OF this] show ?thesis
    using m n j
    by (simp add: vec_def vadd_def vsub_def scale_def one_f32_def f32_add_zero f32_sub_zero)
qed

text \<open>
  C10, at the static ground with a ball at rest on it. \<open>velAlongNormal\<close> is zero, the
  early exit does not fire, \<open>j\<close> is zero and the impulse is the zero vector; the ball
  keeps its velocity, but \<open>1 / a.mass\<close> is infinite for the ground and
  \<open>a.velocity -= 1 / a.mass * impulse\<close> turns the velocity of the ground from
  \<open>(0, 0)\<close> into not-a-number.
\<close>

theorem resting_contact_static_ground:
  "vel_along_normal from_ground ground resting_ball = 0 \<and>
   impulse_scalar from_ground ground resting_ball = 0 \<and>
   scale (impulse_scalar from_ground ground resting_ball) (normal from_ground) = vec 0 0 \<and>
   velocity ground = vec 0 0 \<and>
   velocity (fst (resolveCollision from_ground ground resting_ball)) = \<lparr>vx = NaN, vy = NaN\<rparr> \<and>
   velocity (snd (resolveCollision from_ground ground resting_ball)) = velocity resting_ball"
  by (simp add: resolveCollision_def Let_def impulse_scalar_def denominator_def
        vel_along_normal_def ground_def resting_ball_def from_ground_def object_at_def
        contact_def vec_def dot_def vsub_def vadd_def scale_def fmin_def zero_f32_def
        one_f32_def minus_f32_def signed_inf_def)

section \<open>Pairs of the broad phase\<close>

lemma distinct_concat_map:
  assumes "distinct xs"
    and "\<And>x. x \<in> set xs \<Longrightarrow> distinct (f x)"
    and "\<And>x y. x \<in> set xs \<Longrightarrow> y \<in> set xs \<Longrightarrow> x \<noteq> y \<Longrightarrow> set (f x) \<inter> set (f y) = {}"
  shows "distinct (concat (map f xs))"
  using assms
proof (induction xs)
  case Nil
  then show ?case by simp
next
  case (Cons x xs)
  have "distinct (concat (map f xs))"
    using Cons.prems by (intro Cons.IH) auto
  moreover have "distinct (f x)" using Cons.prems(2) by simp
  moreover have "set (f x) \<inter> set (f y) = {}" if "y \<in> set xs" for y
    using Cons.prems(1) Cons.prems(3) [of x y] that by auto
  ultimately show ?case by auto
qed

lemma findPairs_member:
  "(i, j) \<in> set (findPairs bodies) =
     (i < j \<and> j < length bodies \<and> may_collide (bodies ! i) (bodies ! j))"
  by (force simp add: findPairs_def)

lemma findPairs_distinct: "distinct (findPairs bodies)"
  unfolding findPairs_def
  by (rule distinct_concat_map) (auto simp add: distinct_map inj_on_def)

lemma findPairs_three_bodies: "findPairs three_bodies = [(0, 1), (1, 2)]"
  by code_simp

text \<open>
  C7. Every pair \<open>(i, j)\<close> that the broad phase emits has \<open>i < j\<close> (and both are
  indices of the sequence). So no pair \<open>(i, i)\<close> is emitted, never both \<open>(i, j)\<close> and
  \<open>(j, i)\<close>, and no pair is emitted twice.
\<close>

theorem findPairs_no_self_no_mirror:
  "(i, i) \<notin> set (findPairs bodies) \<and>
   \<not> ((i, j) \<in> set (findPairs bodies) \<and> (j, i) \<in> set (findPairs bodies)) \<and>
   (\<forall>p \<in> set (findPairs bodies). fst p < snd p \<and> snd p < length bodies) \<and>
   distinct (findPairs bodies)"
  using findPairs_distinct [of bodies]
  by (auto simp add: findPairs_member)

theorem findPairs_no_self_no_mirror_witness:
  "findPairs three_bodies = [(0, 1), (1, 2)] \<and>
   (1, 1) \<notin> set (findPairs three_bodies) \<and>
   (1, 0) \<notin> set (findPairs three_bodies) \<and>
   distinct (findPairs three_bodies)"
  using findPairs_no_self_no_mirror [of 1 three_bodies 0]
  by (simp add: findPairs_three_bodies)

end
